theory Spec2Isabelle
  imports Complex_Main
begin

section \<open>Python strings, values and dictionaries\<close>

text \<open>
  The classifier of \<^verbatim>\<open>backend/app/agents/classifier.py\<close> works on Python strings and
  dictionaries. A Python \<^verbatim>\<open>str\<close> is modelled as a \<^typ>\<open>string\<close> holding the bytes of
  its UTF-8 encoding: on ASCII text the two coincide character by character, and a
  code point outside ASCII (the dash of a subject line, say) is the two to four bytes
  above \<open>0x7F\<close> that encode it. The character classes below (\<open>is_space\<close>, \<open>is_digit\<close>,
  \<open>is_word\<close>, \<open>char_lower\<close>) are Python's on ASCII; a byte above \<open>0x7F\<close> is in none of them
  and is its own lower case, which is Python's reading of every code point that is
  neither a letter, a digit nor white space.
\<close>

fun starts_with :: "string \<Rightarrow> string \<Rightarrow> bool" where
  "starts_with s [] = True"
| "starts_with [] (c # p) = False"
| "starts_with (x # s) (c # p) = (x = c \<and> starts_with s p)"

text \<open>\<^verbatim>\<open>sub in s\<close> on strings: \<open>sub\<close> occurs in \<open>s\<close> as a contiguous run.\<close>

fun py_in :: "string \<Rightarrow> string \<Rightarrow> bool" where
  "py_in sub [] = (sub = [])"
| "py_in sub (c # cs) = (starts_with (c # cs) sub \<or> py_in sub cs)"

text \<open>
  \<^verbatim>\<open>s.split(sep)\<close>: the pieces of \<open>s\<close> between the occurrences of \<open>sep\<close>, scanned from
  the left. The source only splits on the non-empty constants \<^verbatim>\<open>':'\<close>, \<^verbatim>\<open>'```json'\<close>
  and \<^verbatim>\<open>'```'\<close>. The result is never the empty list.
\<close>

fun split_from :: "string \<Rightarrow> string \<Rightarrow> string list" where
  "split_from sep [] = [[]]"
| "split_from sep (c # cs) =
     (if starts_with (c # cs) sep then [] # split_from sep (drop (length sep - 1) cs)
      else (case split_from sep cs of [] \<Rightarrow> [[c]] | p # ps \<Rightarrow> (c # p) # ps))"

definition py_split :: "string \<Rightarrow> string \<Rightarrow> string list" where
  "py_split s sep = split_from sep s"

definition char_lower :: "char \<Rightarrow> char" where
  "char_lower c =
     (case map_of (zip ''ABCDEFGHIJKLMNOPQRSTUVWXYZ'' ''abcdefghijklmnopqrstuvwxyz'') c of
        Some l \<Rightarrow> l
      | None \<Rightarrow> c)"

definition py_lower :: "string \<Rightarrow> string" where
  "py_lower s = map char_lower s"

definition is_space :: "char \<Rightarrow> bool" where
  "is_space c = (c \<in> set [CHR '' '', CHR 0x09, CHR 0x0A, CHR 0x0B, CHR 0x0C, CHR 0x0D,
                          CHR 0x1C, CHR 0x1D, CHR 0x1E, CHR 0x1F])"

definition is_digit :: "char \<Rightarrow> bool" where
  "is_digit c = (c \<in> set ''0123456789'')"

definition is_word :: "char \<Rightarrow> bool" where
  "is_word c = (c \<in> set ''abcdefghijklmnopqrstuvwxyzABCDEFGHIJKLMNOPQRSTUVWXYZ0123456789_'')"

definition py_strip :: "string \<Rightarrow> string" where
  "py_strip s = rev (dropWhile is_space (rev (dropWhile is_space s)))"

text \<open>
  The values a dictionary of the classifier can hold: the literals of the local rules,
  and whatever \<^verbatim>\<open>json.loads\<close> builds from the remote reply. A dictionary keeps its
  keys in insertion order. Floats are modelled as rationals: the classifier compares
  them against literals, and the only arithmetic on one is the \<open>+ 0.1\<close> of the merge
  step of \<open>classify_email\<close>.
\<close>

datatype pyval =
    PNone
  | PBool bool
  | PInt int
  | PFloat rat
  | PStr string
  | PList "pyval list"
  | PDict "(string \<times> pyval) list"

type_synonym pydict = "(string \<times> pyval) list"

definition dict_get :: "pydict \<Rightarrow> string \<Rightarrow> pyval option" where
  "dict_get d k = map_of d k"

fun dict_set :: "pydict \<Rightarrow> string \<Rightarrow> pyval \<Rightarrow> pydict" where
  "dict_set [] k v = [(k, v)]"
| "dict_set ((k', v') # d) k v =
     (if k' = k then (k', v) # d else (k', v') # dict_set d k v)"

section \<open>Regular expressions\<close>

text \<open>
  The patterns of the classifier are written for Python's \<^verbatim>\<open>re\<close> module, a backtracking
  matcher: alternatives are tried from left to right, a quantifier is greedy (it tries
  one more round before it tries to stop), and the first way through the whole pattern
  is the match. \<open>regex\<close> is the syntax the source's patterns use; \<open>rmatch\<close> is the matcher,
  written with a continuation for the rest of the pattern, so that the order in which
  Python backtracks is the order in which the cases below are tried.

  A matcher state is the character before the current position (\<open>None\<close> at the start
  of the text), which \<^verbatim>\<open>\b\<close> needs, and the text that is left.
\<close>

datatype cset = CChar char | CRange char char | CDigit | CSpace

fun in_cset :: "char \<Rightarrow> cset \<Rightarrow> bool" where
  "in_cset c (CChar d) = (c = d)"
| "in_cset c (CRange lo hi) =
     ((of_char lo :: nat) \<le> of_char c \<and> (of_char c :: nat) \<le> of_char hi)"
| "in_cset c CDigit = is_digit c"
| "in_cset c CSpace = is_space c"

datatype regex =
    Eps
  | Lit char
  | Cls "cset list"
  | NCls "cset list"
  | WordB
  | Seq regex regex
  | Alt regex regex
  | Rep nat "nat option" regex

type_synonym mstate = "char option \<times> string"

text \<open>\<^verbatim>\<open>\b\<close>: exactly one of the two neighbouring positions holds a word character.\<close>

definition at_boundary :: "mstate \<Rightarrow> bool" where
  "at_boundary st =
     ((case fst st of None \<Rightarrow> False | Some p \<Rightarrow> is_word p)
      \<noteq> (case snd st of [] \<Rightarrow> False | x # xs \<Rightarrow> is_word x))"

text \<open>
  \<open>rep hi m lo k\<close>: between \<open>lo\<close> and \<open>hi\<close> rounds of the matcher \<open>m\<close>, then \<open>k\<close>; greedy.
\<close>

primrec rep :: "nat \<Rightarrow> ((mstate \<Rightarrow> 'a option) \<Rightarrow> mstate \<Rightarrow> 'a option) \<Rightarrow> nat
                 \<Rightarrow> (mstate \<Rightarrow> 'a option) \<Rightarrow> mstate \<Rightarrow> 'a option" where
  "rep 0 m lo k st = (if lo = 0 then k st else None)"
| "rep (Suc hi) m lo k st =
     (case m (rep hi m (lo - 1) k) st of
        Some y \<Rightarrow> Some y
      | None \<Rightarrow> if lo = 0 then k st else None)"

text \<open>
  A repetition with no upper bound (\<^verbatim>\<open>+\<close>, \<^verbatim>\<open>{2,}\<close>) runs at most as many rounds as
  there are characters left: every repeated sub-pattern of the source consumes at least
  one character in each round.
\<close>

primrec rmatch :: "regex \<Rightarrow> (mstate \<Rightarrow> 'a option) \<Rightarrow> mstate \<Rightarrow> 'a option" where
  "rmatch Eps k st = k st"
| "rmatch (Lit c) k st =
     (case snd st of [] \<Rightarrow> None | x # xs \<Rightarrow> if x = c then k (Some x, xs) else None)"
| "rmatch (Cls cs) k st =
     (case snd st of [] \<Rightarrow> None
      | x # xs \<Rightarrow> if list_ex (in_cset x) cs then k (Some x, xs) else None)"
| "rmatch (NCls cs) k st =
     (case snd st of [] \<Rightarrow> None
      | x # xs \<Rightarrow> if list_ex (in_cset x) cs then None else k (Some x, xs))"
| "rmatch WordB k st = (if at_boundary st then k st else None)"
| "rmatch (Seq a b) k st = rmatch a (rmatch b k) st"
| "rmatch (Alt a b) k st =
     (case rmatch a k st of Some y \<Rightarrow> Some y | None \<Rightarrow> rmatch b k st)"
| "rmatch (Rep lo hi r) k st =
     rep (case hi of None \<Rightarrow> length (snd st) | Some h \<Rightarrow> h) (rmatch r) lo k st"

text \<open>The match that starts at the current position, if any: the state after it.\<close>

definition match_at :: "regex \<Rightarrow> char option \<Rightarrow> string \<Rightarrow> mstate option" where
  "match_at r p s = rmatch r Some (p, s)"

text \<open>
  \<^verbatim>\<open>re.sub(pattern, repl, text)\<close>: from the left, every match is replaced by \<open>repl\<close> and the
  scan goes on after it; a character at which no match starts is copied. None of the
  source's patterns matches the empty string, and none of its replacement strings holds
  a backslash, so \<open>repl\<close> is inserted as it is.
\<close>

fun sub_scan :: "regex \<Rightarrow> string \<Rightarrow> char option \<Rightarrow> string \<Rightarrow> string" where
  "sub_scan r repl p [] = []"
| "sub_scan r repl p (c # cs) =
     (case match_at r p (c # cs) of
        None \<Rightarrow> c # sub_scan r repl (Some c) cs
      | Some st \<Rightarrow>
          if length (snd st) < length (c # cs) then repl @ sub_scan r repl (fst st) (snd st)
          else c # sub_scan r repl (Some c) cs)"

definition re_sub :: "regex \<Rightarrow> string \<Rightarrow> string \<Rightarrow> string" where
  "re_sub r repl s = sub_scan r repl None s"

text \<open>\<^verbatim>\<open>re.search(pattern, text)\<close> as a truth value: a match starts somewhere.\<close>

fun search_scan :: "regex \<Rightarrow> char option \<Rightarrow> string \<Rightarrow> bool" where
  "search_scan r p [] = (match_at r p [] \<noteq> None)"
| "search_scan r p (c # cs) = (match_at r p (c # cs) \<noteq> None \<or> search_scan r (Some c) cs)"

definition re_search :: "regex \<Rightarrow> string \<Rightarrow> bool" where
  "re_search r s = search_scan r None s"

text \<open>Shorthands for writing the patterns down as the source spells them.\<close>

fun seqs :: "regex list \<Rightarrow> regex" where
  "seqs [] = Eps"
| "seqs [r] = r"
| "seqs (r # rs) = Seq r (seqs rs)"

fun alts :: "regex list \<Rightarrow> regex" where
  "alts [] = Cls []"
| "alts [r] = r"
| "alts (r # rs) = Alt r (alts rs)"

definition lit :: "string \<Rightarrow> regex" where
  "lit s = seqs (map Lit s)"

definition words :: "string list \<Rightarrow> regex" where
  "words ws = alts (map lit ws)"

definition digit :: regex where
  "digit = Cls [CDigit]"

definition opt :: "regex \<Rightarrow> regex" where
  "opt r = Rep 0 (Some 1) r"

definition plus1 :: "regex \<Rightarrow> regex" where
  "plus1 r = Rep 1 None r"

definition times :: "nat \<Rightarrow> regex \<Rightarrow> regex" where
  "times n r = Rep n (Some n) r"

definition between :: "nat \<Rightarrow> nat \<Rightarrow> regex \<Rightarrow> regex" where
  "between lo hi r = Rep lo (Some hi) r"

section \<open>The PII redactor\<close>

text \<open>\<^verbatim>\<open>\b[A-Za-z0-9._%+-]+@[A-Za-z0-9.-]+\.[A-Z|a-z]{2,}\b\<close>\<close>

definition email_pattern :: regex where
  "email_pattern =
     seqs [WordB,
           plus1 (Cls [CRange CHR ''A'' CHR ''Z'', CRange CHR ''a'' CHR ''z'',
                       CRange CHR ''0'' CHR ''9'', CChar CHR ''.'', CChar CHR ''_'',
                       CChar CHR ''%'', CChar CHR ''+'', CChar CHR ''-'']),
           Lit CHR ''@'',
           plus1 (Cls [CRange CHR ''A'' CHR ''Z'', CRange CHR ''a'' CHR ''z'',
                       CRange CHR ''0'' CHR ''9'', CChar CHR ''.'', CChar CHR ''-'']),
           Lit CHR ''.'',
           Rep 2 None (Cls [CRange CHR ''A'' CHR ''Z'', CChar CHR ''|'',
                            CRange CHR ''a'' CHR ''z'']),
           WordB]"

text \<open>\<^verbatim>\<open>\b\d{3}[-.]?\d{3}[-.]?\d{4}\b\<close>\<close>

definition phone_dashed :: regex where
  "phone_dashed =
     seqs [WordB, times 3 digit, opt (Cls [CChar CHR ''-'', CChar CHR ''.'']),
           times 3 digit, opt (Cls [CChar CHR ''-'', CChar CHR ''.'']),
           times 4 digit, WordB]"

text \<open>\<^verbatim>\<open>\b\(\d{3}\)\s?\d{3}[-.]?\d{4}\b\<close>\<close>

definition phone_parenthesized :: regex where
  "phone_parenthesized =
     seqs [WordB, Lit CHR ''('', times 3 digit, Lit CHR '')'', opt (Cls [CSpace]),
           times 3 digit, opt (Cls [CChar CHR ''-'', CChar CHR ''.'']),
           times 4 digit, WordB]"

text \<open>\<^verbatim>\<open>\b\+\d{1,3}[-.\s]?\d{3,4}[-.\s]?\d{3,4}[-.\s]?\d{3,4}\b\<close>\<close>

definition phone_international :: regex where
  "phone_international =
     seqs [WordB, Lit CHR ''+'', between 1 3 digit,
           opt (Cls [CChar CHR ''-'', CChar CHR ''.'', CSpace]), between 3 4 digit,
           opt (Cls [CChar CHR ''-'', CChar CHR ''.'', CSpace]), between 3 4 digit,
           opt (Cls [CChar CHR ''-'', CChar CHR ''.'', CSpace]), between 3 4 digit,
           WordB]"

definition phone_patterns :: "regex list" where
  "phone_patterns = [phone_dashed, phone_parenthesized, phone_international]"

text \<open>
  \<^verbatim>\<open>http[s]?://(?:[a-zA-Z]|[0-9]|[$-_@.&+]|[!*\\(\\),]|(?:%[0-9a-fA-F][0-9a-fA-F]))+\<close>.
  The class \<^verbatim>\<open>[$-_@.&+]\<close> holds the range from \<^verbatim>\<open>$\<close> to \<^verbatim>\<open>_\<close>, which covers the
  digits, the capitals and both square brackets. \<open>CHR 0x5C\<close> is the backslash.
\<close>

definition url_pattern :: regex where
  "url_pattern =
     seqs [lit ''http'', opt (Cls [CChar CHR ''s'']), lit ''://'',
           plus1 (alts [Cls [CRange CHR ''a'' CHR ''z'', CRange CHR ''A'' CHR ''Z''],
                        Cls [CRange CHR ''0'' CHR ''9''],
                        Cls [CRange CHR ''$'' CHR ''_'', CChar CHR ''@'', CChar CHR ''.'',
                             CChar CHR ''&'', CChar CHR ''+''],
                        Cls [CChar CHR ''!'', CChar CHR ''*'', CChar (CHR 0x5C),
                             CChar CHR ''('', CChar (CHR 0x5C), CChar CHR '')'',
                             CChar CHR '',''],
                        seqs [Lit CHR ''%'',
                              Cls [CRange CHR ''0'' CHR ''9'', CRange CHR ''a'' CHR ''f'',
                                   CRange CHR ''A'' CHR ''F''],
                              Cls [CRange CHR ''0'' CHR ''9'', CRange CHR ''a'' CHR ''f'',
                                   CRange CHR ''A'' CHR ''F'']]])]"

text \<open>\<^verbatim>\<open>\b\d{4}[-\s]?\d{4}[-\s]?\d{4}[-\s]?\d{4}\b\<close>\<close>

definition card_pattern :: regex where
  "card_pattern =
     seqs [WordB, times 4 digit, opt (Cls [CChar CHR ''-'', CSpace]),
           times 4 digit, opt (Cls [CChar CHR ''-'', CSpace]),
           times 4 digit, opt (Cls [CChar CHR ''-'', CSpace]),
           times 4 digit, WordB]"

text \<open>\<^verbatim>\<open>\b\d{3}-\d{2}-\d{4}\b\<close>\<close>

definition ssn_pattern :: regex where
  "ssn_pattern =
     seqs [WordB, times 3 digit, Lit CHR ''-'', times 2 digit, Lit CHR ''-'',
           times 4 digit, WordB]"

text \<open>\<^verbatim>\<open>\b(Mr|Mrs|Ms|Dr|Prof)\.?\s+[A-Z][a-z]+(?:\s+[A-Z][a-z]+)?\b\<close>\<close>

definition name_pattern :: regex where
  "name_pattern =
     seqs [WordB, words [''Mr'', ''Mrs'', ''Ms'', ''Dr'', ''Prof''], opt (Lit CHR ''.''),
           plus1 (Cls [CSpace]),
           Cls [CRange CHR ''A'' CHR ''Z''], plus1 (Cls [CRange CHR ''a'' CHR ''z'']),
           opt (seqs [plus1 (Cls [CSpace]), Cls [CRange CHR ''A'' CHR ''Z''],
                      plus1 (Cls [CRange CHR ''a'' CHR ''z''])]),
           WordB]"

text \<open>
  \<^verbatim>\<open>\b\d+\s+[A-Za-z\s]+(?:Street|St|Avenue|Ave|Road|Rd|Boulevard|Blvd|Drive|Dr|Lane|Ln)\b\<close>
\<close>

definition address_pattern :: regex where
  "address_pattern =
     seqs [WordB, plus1 digit, plus1 (Cls [CSpace]),
           plus1 (Cls [CRange CHR ''A'' CHR ''Z'', CRange CHR ''a'' CHR ''z'', CSpace]),
           words [''Street'', ''St'', ''Avenue'', ''Ave'', ''Road'', ''Rd'', ''Boulevard'',
                  ''Blvd'', ''Drive'', ''Dr'', ''Lane'', ''Ln''],
           WordB]"

text \<open>
  \<^verbatim>\<open>redact_pii(text)\<close>. The argument is \<open>None\<close> when the caller passes Python's \<^verbatim>\<open>None\<close>;
  \<^verbatim>\<open>if not text\<close> answers both that and the empty string. Each later assignment to
  \<^verbatim>\<open>text\<close> is one of the bindings below, in the order of the source.
\<close>

definition redact_pii :: "string option \<Rightarrow> string" where
  "redact_pii text =
     (case text of
        None \<Rightarrow> []
      | Some text0 \<Rightarrow>
          if text0 = [] then []
          else
            let text1 = re_sub email_pattern ''[EMAIL]'' text0;
                text2 = foldl (\<lambda>text pattern. re_sub pattern ''[PHONE]'' text) text1
                          phone_patterns;
                text3 = re_sub url_pattern ''[URL]'' text2;
                text4 = re_sub card_pattern ''[CARD]'' text3;
                text5 = re_sub ssn_pattern ''[SSN]'' text4;
                text6 = re_sub name_pattern ''[NAME]'' text5;
                text7 = re_sub address_pattern ''[ADDRESS]'' text6
            in text7)"

section \<open>The keyword extractor\<close>

definition urgency_keywords :: "string list" where
  "urgency_keywords =
     [''urgent'', ''asap'', ''immediate'', ''emergency'', ''critical'', ''deadline'',
      ''rush'', ''priority'', ''time-sensitive'', ''expedite'']"

definition financial_keywords :: "string list" where
  "financial_keywords =
     [''invoice'', ''payment'', ''bill'', ''receipt'', ''refund'', ''transaction'',
      ''purchase'', ''order'', ''subscription'', ''charge'', ''fee'', ''cost'',
      ''price'', ''amount'', ''total'', ''balance'', ''account'']"

definition meeting_keywords :: "string list" where
  "meeting_keywords =
     [''meeting'', ''call'', ''appointment'', ''schedule'', ''calendar'',
      ''conference'', ''zoom'', ''teams'', ''webinar'', ''discussion'']"

definition work_keywords :: "string list" where
  "work_keywords =
     [''project'', ''task'', ''deliverable'', ''milestone'', ''report'',
      ''presentation'', ''document'', ''proposal'', ''contract'', ''agreement'']"

definition personal_keywords :: "string list" where
  "personal_keywords =
     [''family'', ''friend'', ''personal'', ''vacation'', ''holiday'',
      ''birthday'', ''anniversary'', ''celebration'', ''party'']"

definition support_keywords :: "string list" where
  "support_keywords =
     [''support'', ''help'', ''issue'', ''problem'', ''error'', ''bug'',
      ''ticket'', ''question'', ''inquiry'', ''assistance'']"

text \<open>The dictionary \<^verbatim>\<open>all_keywords\<close>, in insertion order.\<close>

definition all_keywords :: "(string \<times> string list) list" where
  "all_keywords =
     [(''urgency'', urgency_keywords), (''financial'', financial_keywords),
      (''meeting'', meeting_keywords), (''work'', work_keywords),
      (''personal'', personal_keywords), (''support'', support_keywords)]"

definition action_words :: "string list" where
  "action_words =
     [''review'', ''approve'', ''submit'', ''send'', ''update'', ''complete'',
      ''schedule'', ''confirm'', ''cancel'', ''reschedule'', ''follow-up'',
      ''discuss'', ''decide'', ''implement'', ''prepare'', ''deliver'']"

text \<open>
  The five \<^verbatim>\<open>time_patterns\<close>:
  \<^verbatim>\<open>\b(today|tomorrow|yesterday)\b\<close>, the weekdays, the months,
  \<^verbatim>\<open>\b\d{1,2}:\d{2}\s?(am|pm)?\b\<close> and \<^verbatim>\<open>\b\d{1,2}/\d{1,2}/\d{2,4}\b\<close>.
\<close>

definition time_patterns :: "regex list" where
  "time_patterns =
     [seqs [WordB, words [''today'', ''tomorrow'', ''yesterday''], WordB],
      seqs [WordB, words [''monday'', ''tuesday'', ''wednesday'', ''thursday'', ''friday'',
                          ''saturday'', ''sunday''], WordB],
      seqs [WordB, words [''january'', ''february'', ''march'', ''april'', ''may'', ''june'',
                          ''july'', ''august'', ''september'', ''october'', ''november'',
                          ''december''], WordB],
      seqs [WordB, between 1 2 digit, Lit CHR '':'', times 2 digit, opt (Cls [CSpace]),
            opt (words [''am'', ''pm'']), WordB],
      seqs [WordB, between 1 2 digit, Lit CHR ''/'', between 1 2 digit, Lit CHR ''/'',
            between 2 4 digit, WordB]]"

text \<open>\<^verbatim>\<open><[^>]+>\<close> and \<^verbatim>\<open>\s+\<close>, the two patterns that clean the text.\<close>

definition tag_pattern :: regex where
  "tag_pattern = seqs [Lit CHR ''<'', plus1 (NCls [CChar CHR ''>'']), Lit CHR ''>'']"

definition whitespace_pattern :: regex where
  "whitespace_pattern = plus1 (Cls [CSpace])"

text \<open>
  \<^verbatim>\<open>extract_keywords(text)\<close>. The source returns \<^verbatim>\<open>list(set(found_keywords))\<close>, whose
  order Python leaves open; \<open>remdups\<close> is one such order, and \<open>classify_locally\<close> only
  asks which keywords are in the list and how many \<^verbatim>\<open>action:\<close> keywords it holds.
\<close>

definition extract_keywords :: "string \<Rightarrow> string list" where
  "extract_keywords text0 =
     (if text0 = [] then []
      else
        let text1 = re_sub tag_pattern [] text0;
            text = py_strip (re_sub whitespace_pattern '' '' text1);
            text_lower = py_lower text;
            found_categories =
              concat (map (\<lambda>(category, kws).
                             map (\<lambda>keyword. category @ '':'' @ keyword)
                               (filter (\<lambda>keyword. py_in keyword text_lower) kws))
                        all_keywords);
            found_actions =
              map (\<lambda>action. ''action:'' @ action)
                (filter (\<lambda>action. py_in action text_lower) action_words);
            found_question =
              (if py_in ''?'' text
                  \<or> list_ex (\<lambda>q. py_in q text_lower)
                       [''what'', ''when'', ''where'', ''who'', ''why'', ''how'']
               then [''type:question''] else []);
            found_time =
              (if list_ex (\<lambda>pattern. re_search pattern text_lower) time_patterns
               then [''has_time_reference''] else [])
        in remdups (found_categories @ found_actions @ found_question @ found_time))"

section \<open>The local rule engine\<close>

text \<open>
  Every \<^verbatim>\<open>return {...}\<close> of \<^verbatim>\<open>classify_locally\<close> is a dictionary literal with the same
  four keys, in this order.
\<close>

definition result_dict :: "string \<Rightarrow> string \<Rightarrow> rat \<Rightarrow> string \<Rightarrow> pydict" where
  "result_dict category priority confidence reasoning =
     [(''category'', PStr category), (''priority'', PStr priority),
      (''confidence'', PFloat confidence), (''reasoning'', PStr reasoning)]"

text \<open>\<^verbatim>\<open>[kw.split(':')[-1] if ':' in kw else kw for kw in keywords]\<close>\<close>

definition keyword_strings :: "string list \<Rightarrow> string list" where
  "keyword_strings keywords =
     map (\<lambda>kw. if CHR '':'' \<in> set kw then last (py_split kw '':'') else kw) keywords"

definition spam_indicators :: "string set" where
  "spam_indicators =
     {''urgent'', ''limited time'', ''act now'', ''free'', ''winner'', ''congratulations'',
      ''claim'', ''prize'', ''offer'', ''discount'', ''sale'', ''deal''}"

definition financial_indicators :: "string set" where
  "financial_indicators =
     {''invoice'', ''payment'', ''bill'', ''receipt'', ''transaction'', ''refund''}"

definition meeting_indicators :: "string set" where
  "meeting_indicators =
     {''meeting'', ''call'', ''appointment'', ''schedule'', ''calendar'', ''conference''}"

definition support_indicators :: "string set" where
  "support_indicators =
     {''support'', ''help'', ''issue'', ''problem'', ''error'', ''bug'', ''ticket''}"

definition work_indicators :: "string set" where
  "work_indicators =
     {''project'', ''task'', ''deliverable'', ''milestone'', ''report'', ''proposal''}"

definition personal_indicators :: "string set" where
  "personal_indicators =
     {''family'', ''friend'', ''personal'', ''vacation'', ''birthday'', ''party''}"

text \<open>
  \<^verbatim>\<open>classify_locally(keywords, sender, subject)\<close>: an ordered list of rules, the first
  that fires returns; \<open>None\<close> when none does. Rule 3 raises the priority when one of the
  two strings \<^verbatim>\<open>'urgency:'\<close> and \<^verbatim>\<open>'has_time_reference'\<close> is an element of \<open>keywords\<close>;
  rule 5 looks for \<^verbatim>\<open>'urgency:'\<close> among the parts before the first colon of the tagged
  keywords.
\<close>

definition classify_locally :: "string list \<Rightarrow> string \<Rightarrow> string \<Rightarrow> pydict option" where
  "classify_locally keywords sender subject =
     (if keywords = [] then None
      else
        let keyword_set = set (keyword_strings keywords) in
        if 2 \<le> card (keyword_set \<inter> spam_indicators) then
          Some (result_dict ''spam'' ''low'' 0.9 ''Multiple spam indicators detected'')
        else if keyword_set \<inter> financial_indicators \<noteq> {} then
          Some (result_dict ''financial''
                  (if ''urgent'' \<in> keyword_set then ''high'' else ''medium'')
                  0.85 ''Financial keywords detected'')
        else if keyword_set \<inter> meeting_indicators \<noteq> {} then
          Some (result_dict ''meetings''
                  (if list_ex (\<lambda>kw. kw \<in> set keywords) [''urgency:'', ''has_time_reference'']
                   then ''high'' else ''medium'')
                  0.8 ''Meeting/calendar keywords detected'')
        else if keyword_set \<inter> support_indicators \<noteq> {} then
          Some (result_dict ''support''
                  (if ''urgent'' \<in> keyword_set then ''high'' else ''medium'')
                  0.8 ''Support/technical keywords detected'')
        else if keyword_set \<inter> work_indicators \<noteq> {} then
          Some (result_dict ''work''
                  (if ''urgency:'' \<in> set (map (\<lambda>kw. hd (py_split kw '':''))
                                            (filter (\<lambda>kw. CHR '':'' \<in> set kw) keywords))
                   then ''high'' else ''medium'')
                  0.75 ''Work/project keywords detected'')
        else if keyword_set \<inter> personal_indicators \<noteq> {} then
          Some (result_dict ''personal'' ''low'' 0.7 ''Personal keywords detected'')
        else
          let sender_lower = py_lower sender in
          if list_ex (\<lambda>service. py_in service sender_lower)
               [''noreply'', ''no-reply'', ''notification'', ''support''] then
            (if keyword_set \<inter> financial_indicators \<noteq> {} then
               Some (result_dict ''financial'' ''medium'' 0.8
                       ''Service notification with financial content'')
             else
               Some (result_dict ''notifications'' ''low'' 0.75
                       ''Automated service notification''))
          else
            let subject_lower = py_lower subject in
            if list_ex (\<lambda>word. py_in word subject_lower)
                 [''unsubscribe'', ''newsletter'', ''promotion''] then
              Some (result_dict ''promotional'' ''low'' 0.85 ''Promotional content in subject'')
            else if list_ex (\<lambda>word. py_in word subject_lower)
                      [''urgent'', ''asap'', ''immediate''] then
              Some (result_dict ''urgent'' ''high'' 0.8 ''Urgent markers in subject'')
            else
              let action_keywords = filter (\<lambda>kw. starts_with kw ''action:'') keywords in
              if 2 \<le> length action_keywords \<or> ''type:question'' \<in> set keywords then
                Some (result_dict ''action_required'' ''medium'' 0.75
                        ''Multiple action items or questions detected'')
              else None)"

section \<open>The remote inference adapter\<close>

text \<open>
  The exceptions the classifier can meet, each with the text \<^verbatim>\<open>str(e)\<close> gives.
  \<open>ServiceError\<close> stands for whatever the client library raises from the call itself
  (a timeout, an authentication or rate-limit error, a failed \<^verbatim>\<open>await\<close>); like the
  others it is a subclass of \<^verbatim>\<open>Exception\<close>.
\<close>

datatype py_exception =
    JSONDecodeError string
  | ValueError string
  | TypeError string
  | IndexError string
  | AttributeError string
  | KeyError string
  | ServiceError string

fun exc_message :: "py_exception \<Rightarrow> string" where
  "exc_message (JSONDecodeError m) = m"
| "exc_message (ValueError m) = m"
| "exc_message (TypeError m) = m"
| "exc_message (IndexError m) = m"
| "exc_message (AttributeError m) = m"
| "exc_message (KeyError m) = m"
| "exc_message (ServiceError m) = m"

text \<open>
  What the awaited call \<^verbatim>\<open>self.openai_client.chat.completions.create(...)\<close> does: it
  raises, or it returns a response, of which the adapter reads
  \<^verbatim>\<open>choices[0].message.content\<close>; a response is modelled as the list of the contents of
  its choices, \<open>None\<close> for a choice without content.

  The service and \<^verbatim>\<open>json.loads\<close> are not code of the repository. They are the two
  fields of the environment the adapter runs in: \<open>create\<close> answers the two parts of the
  prompt that vary (the redacted content cut to 1000 characters, and the keyword
  summary; the rest of the prompt and the sampling parameters are constants), and
  \<open>json_loads\<close> reads a text as a value or raises, \<open>JSONDecodeError\<close> on malformed text.
\<close>

datatype service_outcome = ServiceRaises py_exception | ServiceResponse "string option list"

record remote_env =
  create :: "string \<Rightarrow> string \<Rightarrow> service_outcome"
  json_loads :: "string \<Rightarrow> py_exception + pyval"

fun py_join :: "string \<Rightarrow> string list \<Rightarrow> string" where
  "py_join sep [] = []"
| "py_join sep [x] = x"
| "py_join sep (x # xs) = x @ sep @ py_join sep xs"

definition quoted :: "string \<Rightarrow> string" where
  "quoted s = CHR 0x27 # s @ [CHR 0x27]"

fun type_name :: "pyval \<Rightarrow> string" where
  "type_name PNone = ''NoneType''"
| "type_name (PBool b) = ''bool''"
| "type_name (PInt i) = ''int''"
| "type_name (PFloat x) = ''float''"
| "type_name (PStr s) = ''str''"
| "type_name (PList xs) = ''list''"
| "type_name (PDict d) = ''dict''"

definition py_index :: "'a list \<Rightarrow> nat \<Rightarrow> py_exception + 'a" where
  "py_index xs i =
     (if i < length xs then Inr (xs ! i) else Inl (IndexError ''list index out of range''))"

text \<open>\<^verbatim>\<open>response.choices[0].message.content.strip()\<close>\<close>

definition first_content :: "string option list \<Rightarrow> py_exception + string" where
  "first_content choices =
     (case py_index choices 0 of
        Inl e \<Rightarrow> Inl e
      | Inr None \<Rightarrow>
          Inl (AttributeError (quoted ''NoneType'' @ '' object has no attribute ''
                               @ quoted ''strip''))
      | Inr (Some content) \<Rightarrow> Inr (py_strip content))"

text \<open>The removal of a Markdown code fence around the reply.\<close>

definition strip_code_fence :: "string \<Rightarrow> py_exception + string" where
  "strip_code_fence response_text =
     (if py_in ''```json'' response_text then
        (case py_index (py_split response_text ''```json'') 1 of
           Inl e \<Rightarrow> Inl e
         | Inr inner \<Rightarrow> py_index (py_split inner ''```'') 0)
      else if py_in ''```'' response_text then
        (case py_index (py_split response_text ''```'') 1 of
           Inl e \<Rightarrow> Inl e
         | Inr inner \<Rightarrow> py_index (py_split inner ''```'') 0)
      else Inr response_text)"

text \<open>
  \<^verbatim>\<open>field in result\<close>, for the value \<^verbatim>\<open>json.loads\<close> has built: a key of a dictionary,
  an element of a list, a substring of a string; on a number, a truth value or
  \<^verbatim>\<open>None\<close> Python raises \<^verbatim>\<open>TypeError\<close> (the message is CPython 3.11's).
\<close>

fun py_in_value :: "string \<Rightarrow> pyval \<Rightarrow> py_exception + bool" where
  "py_in_value field (PDict d) = Inr (map_of d field \<noteq> None)"
| "py_in_value field (PList xs) = Inr (PStr field \<in> set xs)"
| "py_in_value field (PStr s) = Inr (py_in field s)"
| "py_in_value field v =
     Inl (TypeError (''argument of type '' @ quoted (type_name v) @ '' is not iterable''))"

text \<open>\<^verbatim>\<open>all(field in result for field in required_fields)\<close>, which stops at the first miss.\<close>

fun all_fields_in :: "string list \<Rightarrow> pyval \<Rightarrow> py_exception + bool" where
  "all_fields_in [] result = Inr True"
| "all_fields_in (field # others) result =
     (case py_in_value field result of
        Inl e \<Rightarrow> Inl e
      | Inr False \<Rightarrow> Inr False
      | Inr True \<Rightarrow> all_fields_in others result)"

definition required_fields :: "string list" where
  "required_fields = [''category'', ''priority'', ''confidence'', ''reasoning'']"

text \<open>The body of the inner \<^verbatim>\<open>try\<close>: the value to return, or the exception raised.\<close>

definition parse_response :: "(string \<Rightarrow> py_exception + pyval) \<Rightarrow> string \<Rightarrow> py_exception + pyval"
  where
  "parse_response loads response_text =
     (case strip_code_fence response_text of
        Inl e \<Rightarrow> Inl e
      | Inr json_text \<Rightarrow>
          (case loads json_text of
             Inl e \<Rightarrow> Inl e
           | Inr result \<Rightarrow>
               (case all_fields_in required_fields result of
                  Inl e \<Rightarrow> Inl e
                | Inr True \<Rightarrow> Inr result
                | Inr False \<Rightarrow>
                    Inl (ValueError ''Missing required fields in OpenAI response''))))"

text \<open>\<^verbatim>\<open>except (json.JSONDecodeError, ValueError) as e\<close>\<close>

fun caught_by_inner_handler :: "py_exception \<Rightarrow> bool" where
  "caught_by_inner_handler (JSONDecodeError m) = True"
| "caught_by_inner_handler (ValueError m) = True"
| "caught_by_inner_handler e = False"

definition parse_fallback :: "py_exception \<Rightarrow> pyval" where
  "parse_fallback e =
     PDict (result_dict ''other'' ''medium'' 0.3
              (''OpenAI response parsing failed: '' @ exc_message e))"

definition service_fallback :: "py_exception \<Rightarrow> pyval" where
  "service_fallback e =
     PDict (result_dict ''other'' ''medium'' 0.2
              (''OpenAI classification failed: '' @ exc_message e))"

text \<open>
  \<^verbatim>\<open>classify_with_openai(redacted_content, keywords)\<close>. The outer handler is
  \<^verbatim>\<open>except Exception\<close>, which takes every exception the inner one lets through.
\<close>

definition classify_with_openai :: "remote_env \<Rightarrow> string \<Rightarrow> string list \<Rightarrow> pyval" where
  "classify_with_openai env redacted_content keywords =
     (let keyword_summary = py_join '', '' (take 10 keywords) in
      case create env (take 1000 redacted_content) keyword_summary of
        ServiceRaises e \<Rightarrow> service_fallback e
      | ServiceResponse choices \<Rightarrow>
          (case first_content choices of
             Inl e \<Rightarrow> service_fallback e
           | Inr response_text \<Rightarrow>
               (case parse_response (json_loads env) response_text of
                  Inr result \<Rightarrow> result
                | Inl e \<Rightarrow>
                    if caught_by_inner_handler e then parse_fallback e
                    else service_fallback e)))"

section \<open>The classification orchestrator\<close>

text \<open>
  What a call of \<open>classify_email\<close> does besides returning: it can invoke the remote
  adapter, with the two arguments recorded here, and it can enter the merge step that
  compares the local category with the remote one.
\<close>

datatype event = RemoteCall string "string list" | MergeCompare

text \<open>\<^verbatim>\<open>email_data.get(key, '')\<close>\<close>

definition email_get :: "(string \<rightharpoonup> string) \<Rightarrow> string \<Rightarrow> string" where
  "email_get email_data key = (case email_data key of None \<Rightarrow> [] | Some v \<Rightarrow> v)"

text \<open>\<^verbatim>\<open>v >= t\<close> for a float literal \<open>t\<close>.\<close>

fun py_ge :: "pyval \<Rightarrow> rat \<Rightarrow> py_exception + bool" where
  "py_ge (PFloat x) t = Inr (t \<le> x)"
| "py_ge (PInt i) t = Inr (t \<le> of_int i)"
| "py_ge (PBool b) t = Inr (t \<le> (if b then 1 else 0))"
| "py_ge v t =
     Inl (TypeError (quoted ''>='' @ '' not supported between instances of ''
                     @ quoted (type_name v) @ '' and '' @ quoted ''float''))"

text \<open>\<^verbatim>\<open>local_result and local_result.get('confidence', 0) >= 0.7\<close>, for a result that is not \<^verbatim>\<open>None\<close>.\<close>

definition confident :: "pydict \<Rightarrow> py_exception + bool" where
  "confident local_result =
     (if local_result = [] then Inr False
      else py_ge (case dict_get local_result ''confidence'' of None \<Rightarrow> PInt 0 | Some v \<Rightarrow> v)
             0.7)"

text \<open>\<^verbatim>\<open>obj[key] = v\<close> with a string key.\<close>

fun set_item :: "pyval \<Rightarrow> string \<Rightarrow> pyval \<Rightarrow> py_exception + pydict" where
  "set_item (PDict d) key v = Inr (dict_set d key v)"
| "set_item (PList xs) key v =
     Inl (TypeError ''list indices must be integers or slices, not str'')"
| "set_item obj key v =
     Inl (TypeError (quoted (type_name obj) @ '' object does not support item assignment''))"

text \<open>\<^verbatim>\<open>d[key]\<close> on a dictionary.\<close>

definition dict_item :: "pydict \<Rightarrow> string \<Rightarrow> py_exception + pyval" where
  "dict_item d key =
     (case dict_get d key of None \<Rightarrow> Inl (KeyError (quoted key)) | Some v \<Rightarrow> Inr v)"

text \<open>\<^verbatim>\<open>v + 0.1\<close> and \<^verbatim>\<open>v += ' (confirmed by local rules)'\<close>.\<close>

fun py_add_float :: "pyval \<Rightarrow> rat \<Rightarrow> py_exception + rat" where
  "py_add_float (PFloat x) y = Inr (x + y)"
| "py_add_float (PInt i) y = Inr (of_int i + y)"
| "py_add_float (PBool b) y = Inr ((if b then 1 else 0) + y)"
| "py_add_float v y =
     Inl (TypeError (''unsupported operand type(s) for +: '' @ quoted (type_name v)
                     @ '' and '' @ quoted ''float''))"

fun py_iadd_str :: "pyval \<Rightarrow> string \<Rightarrow> py_exception + pyval" where
  "py_iadd_str (PStr s) t = Inr (PStr (s @ t))"
| "py_iadd_str (PList xs) t = Inr (PList (xs @ map (\<lambda>c. PStr [c]) t))"
| "py_iadd_str v t =
     Inl (TypeError (''unsupported operand type(s) for +=: '' @ quoted (type_name v)
                     @ '' and '' @ quoted ''str''))"

text \<open>
  Step 4 of \<open>classify_email\<close>, for a local result that is there: the remote result
  with its confidence raised by 0.1, capped at 1.0, when the two categories are equal.
  The local category is a string, on which Python's \<^verbatim>\<open>==\<close> is equality of values.
\<close>

definition merge_local :: "pydict \<Rightarrow> pydict \<Rightarrow> py_exception + pydict" where
  "merge_local local_result openai_result =
     (case dict_item local_result ''category'' of
        Inl e \<Rightarrow> Inl e
      | Inr local_category \<Rightarrow>
     (case dict_item openai_result ''category'' of
        Inl e \<Rightarrow> Inl e
      | Inr remote_category \<Rightarrow>
          if local_category \<noteq> remote_category then Inr openai_result
          else
     (case dict_item openai_result ''confidence'' of
        Inl e \<Rightarrow> Inl e
      | Inr confidence \<Rightarrow>
     (case py_add_float confidence 0.1 of
        Inl e \<Rightarrow> Inl e
      | Inr raised \<Rightarrow>
          let boosted = dict_set openai_result ''confidence''
                          (PFloat (if raised < 1 then raised else 1)) in
     (case dict_item boosted ''reasoning'' of
        Inl e \<Rightarrow> Inl e
      | Inr reasoning \<Rightarrow>
     (case py_iadd_str reasoning '' (confirmed by local rules)'' of
        Inl e \<Rightarrow> Inl e
      | Inr reasoning' \<Rightarrow> Inr (dict_set boosted ''reasoning'' reasoning')))))))"

text \<open>Steps 3 and 4 of \<open>classify_email\<close>: redaction, the remote call, the merge.\<close>

definition escalate ::
  "remote_env \<Rightarrow> string \<Rightarrow> string list \<Rightarrow> pydict option \<Rightarrow> event list \<times> (py_exception + pydict)"
  where
  "escalate env full_content keywords local_result =
     (let redacted_content = redact_pii (Some full_content);
          openai_result = classify_with_openai env redacted_content keywords;
          called = [RemoteCall redacted_content keywords]
      in case set_item openai_result ''method'' (PStr ''openai_api'') of
           Inl e \<Rightarrow> (called, Inl e)
         | Inr tagged \<Rightarrow>
             let tagged = dict_set tagged ''privacy_protected'' (PBool True) in
             (case local_result of
                None \<Rightarrow> (called, Inr tagged)
              | Some l \<Rightarrow>
                  if l = [] then (called, Inr tagged)
                  else (called @ [MergeCompare], merge_local l tagged)))"

text \<open>
  \<^verbatim>\<open>classify_email(email_data)\<close>: the events of the call and what it returns or raises.
\<close>

definition classify_email ::
  "remote_env \<Rightarrow> (string \<rightharpoonup> string) \<Rightarrow> event list \<times> (py_exception + pydict)" where
  "classify_email env email_data =
     (let subject = email_get email_data ''subject'';
          body = email_get email_data ''body'';
          sender = email_get email_data ''sender'';
          full_content = subject @ '' '' @ body;
          keywords = extract_keywords full_content;
          local_result = classify_locally keywords sender subject
      in case local_result of
           None \<Rightarrow> escalate env full_content keywords local_result
         | Some l \<Rightarrow>
             (case confident l of
                Inl e \<Rightarrow> ([], Inl e)
              | Inr True \<Rightarrow>
                  ([], Inr (dict_set (dict_set l ''method'' (PStr ''local_rules''))
                              ''privacy_protected'' (PBool True)))
              | Inr False \<Rightarrow> escalate env full_content keywords local_result))"

section \<open>Notions of the specification\<close>

text \<open>
  A keyword is urgency-tagged when it has the form \<^verbatim>\<open>urgency:<term>\<close>, which is how
  \<open>extract_keywords\<close> writes a hit of its urgency list.
\<close>

definition urgency_tagged :: "string \<Rightarrow> bool" where
  "urgency_tagged kw = starts_with kw ''urgency:''"






text \<open>
  Every keyword \<open>extract_keywords\<close> can put into its result: the entries of its six
  lists with their tags, the action words with theirs, and the two sentinels.
\<close>

definition keyword_vocabulary :: "string list" where
  "keyword_vocabulary =
     concat (map (\<lambda>(category, kws). map (\<lambda>keyword. category @ '':'' @ keyword) kws)
               all_keywords)
     @ map (\<lambda>action. ''action:'' @ action) action_words
     @ [''type:question'', ''has_time_reference'']"

section \<open>Inputs used below\<close>

text \<open>
  The sample email of the test endpoint in \<^verbatim>\<open>backend/app/api/v1/classify.py\<close>, and the
  subject line of the promotional scenario of the specification (the three bytes are
  the UTF-8 encoding of its dash).
\<close>

definition sample_email :: "string \<rightharpoonup> string" where
  "sample_email =
     [''subject'' \<mapsto> ''Urgent: Invoice Payment Required'',
      ''body'' \<mapsto> ''Your invoice #12345 for $150.00 is overdue. Please pay immediately.'',
      ''sender'' \<mapsto> ''billing@company.com'']"

definition limited_offer_subject :: string where
  "limited_offer_subject =
     ''50% off '' @ [CHR 0xE2, CHR 0x80, CHR 0x94] @ '' limited time offer, unsubscribe now''"

text \<open>
  Two environments: one in which the service call fails, and one in which the service
  replies with the text \<^verbatim>\<open>42\<close>, which \<^verbatim>\<open>json.loads\<close> reads as the integer 42.
\<close>

definition failing_service :: remote_env where
  "failing_service =
     \<lparr>create = (\<lambda>content summary. ServiceRaises (ServiceError ''Request timed out.'')),
      json_loads = (\<lambda>s. Inl (JSONDecodeError ''Expecting value''))\<rparr>"

definition scalar_reply_service :: remote_env where
  "scalar_reply_service =
     \<lparr>create = (\<lambda>content summary. ServiceResponse [Some ''42'']),
      json_loads = (\<lambda>s. if s = ''42'' then Inr (PInt 42)
                         else Inl (JSONDecodeError ''Expecting value''))\<rparr>"

section \<open>Properties of the local rule engine\<close>

text \<open>
  The part of a keyword before its first colon holds no colon, so the string
  \<^verbatim>\<open>'urgency:'\<close> is never in the list rule 5 searches, and rule 5 always answers with
  priority \<open>medium\<close>.
\<close>

lemma split_from_nonempty: "split_from sep s \<noteq> []"
  by (induction sep s rule: split_from.induct) (auto split: list.splits)

lemma hd_split_colon_free: "CHR '':'' \<notin> set (hd (split_from '':'' s))"
proof (induction s)
  case Nil
  then show ?case by simp
next
  case (Cons c s)
  then show ?case
    by (cases "split_from '':'' s") (auto simp: split_from_nonempty)
qed

lemma urgency_prefix_never_listed:
  "''urgency:'' \<notin> set (map (\<lambda>kw. hd (py_split kw '':''))
                          (filter (\<lambda>kw. CHR '':'' \<in> set kw) keywords))"
proof
  assume "''urgency:'' \<in> set (map (\<lambda>kw. hd (py_split kw '':''))
                             (filter (\<lambda>kw. CHR '':'' \<in> set kw) keywords))"
  then obtain kw where "''urgency:'' = hd (split_from '':'' kw)"
    by (auto simp: py_split_def)
  moreover have "CHR '':'' \<in> set ''urgency:''" by simp
  ultimately show False using hd_split_colon_free [of kw] by simp
qed

lemma work_priority_medium:
  "(if ''urgency:'' \<in> set (map (\<lambda>kw. hd (py_split kw '':''))
                             (filter (\<lambda>kw. CHR '':'' \<in> set kw) keywords))
    then ''high'' else ''medium'') = ''medium''"
  using urgency_prefix_never_listed [of "keywords"] by (simp only: if_False)

lemma untagged_not_member:
  "\<not> list_ex urgency_tagged keywords \<Longrightarrow> ''urgency:'' \<notin> set keywords"
  by (auto simp: list_ex_iff urgency_tagged_def)

text \<open>
  The rules as a case distinction: a result of \<open>classify_locally\<close> is one of eleven
  dictionaries.
\<close>

lemma if_chain_cases:
  "(if a then None
    else if b then Some x1 else if c then Some x2 else if d then Some x3
    else if e then Some x4 else if f then Some x5 else if g then Some x6
    else if h then (if i then Some x7 else Some x8)
    else if j then Some x9 else if k then Some x10 else if l then Some x11 else None) = Some r
   \<Longrightarrow> r = x1 \<or> r = x2 \<or> r = x3 \<or> r = x4 \<or> r = x5 \<or> r = x6 \<or> r = x7 \<or> r = x8
       \<or> r = x9 \<or> r = x10 \<or> r = x11"
  by (simp split: if_splits)

lemma classify_locally_cases:
  assumes "classify_locally keywords sender subject = Some r"
  shows "r = result_dict ''spam'' ''low'' 0.9 ''Multiple spam indicators detected''
       \<or> r = result_dict ''financial''
                 (if ''urgent'' \<in> set (keyword_strings keywords) then ''high'' else ''medium'')
                 0.85 ''Financial keywords detected''
       \<or> r = result_dict ''meetings''
                 (if list_ex (\<lambda>kw. kw \<in> set keywords) [''urgency:'', ''has_time_reference'']
                  then ''high'' else ''medium'')
                 0.8 ''Meeting/calendar keywords detected''
       \<or> r = result_dict ''support''
                 (if ''urgent'' \<in> set (keyword_strings keywords) then ''high'' else ''medium'')
                 0.8 ''Support/technical keywords detected''
       \<or> r = result_dict ''work'' ''medium'' 0.75 ''Work/project keywords detected''
       \<or> r = result_dict ''personal'' ''low'' 0.7 ''Personal keywords detected''
       \<or> r = result_dict ''financial'' ''medium'' 0.8
                 ''Service notification with financial content''
       \<or> r = result_dict ''notifications'' ''low'' 0.75 ''Automated service notification''
       \<or> r = result_dict ''promotional'' ''low'' 0.85 ''Promotional content in subject''
       \<or> r = result_dict ''urgent'' ''high'' 0.8 ''Urgent markers in subject''
       \<or> r = result_dict ''action_required'' ''medium'' 0.75
                 ''Multiple action items or questions detected''"
  using assms unfolding classify_locally_def Let_def work_priority_medium
  by (rule if_chain_cases)

lemma dict_get_result_dict:
  "dict_get (result_dict category priority confidence reasoning) ''category'' =
     Some (PStr category)"
  "dict_get (result_dict category priority confidence reasoning) ''priority'' =
     Some (PStr priority)"
  "dict_get (result_dict category priority confidence reasoning) ''confidence'' =
     Some (PFloat confidence)"
  "dict_get (result_dict category priority confidence reasoning) ''reasoning'' =
     Some (PStr reasoning)"
  by (simp_all add: result_dict_def dict_get_def)

text \<open>
  C10. With an empty keyword list \<open>classify_locally\<close> returns \<open>None\<close> at its first
  statement, whatever the sender and the subject are: the sender rule and the subject
  rules are not reached.
\<close>

theorem classify_locally_no_keywords:
  "classify_locally [] sender subject = None"
  by (simp add: classify_locally_def)

text \<open>
  C6. Whenever \<open>classify_locally\<close> returns a result, its confidence is one of the five
  literals 0.9, 0.85, 0.8, 0.75 and 0.7 written in the rules.
\<close>

theorem classify_locally_confidence_literal:
  "classify_locally keywords sender subject = Some r \<Longrightarrow>
   dict_get r ''confidence'' \<in>
     {Some (PFloat 0.9), Some (PFloat 0.85), Some (PFloat 0.8), Some (PFloat 0.75),
      Some (PFloat 0.7)}"
  by (drule classify_locally_cases) (elim disjE; simp add: dict_get_result_dict)

theorem classify_locally_confidence_literal_witness:
  "classify_locally [''financial:invoice'', ''urgency:urgent''] ''billing@company.com''
       ''Urgent: Invoice Payment Required'' =
     Some (result_dict ''financial'' ''high'' 0.85 ''Financial keywords detected'')
   \<and> dict_get (result_dict ''financial'' ''high'' 0.85 ''Financial keywords detected'')
         ''confidence'' \<in>
       {Some (PFloat 0.9), Some (PFloat 0.85), Some (PFloat 0.8), Some (PFloat 0.75),
        Some (PFloat 0.7)}"
proof -
  have a: "classify_locally [''financial:invoice'', ''urgency:urgent''] ''billing@company.com''
       ''Urgent: Invoice Payment Required'' =
     Some (result_dict ''financial'' ''high'' 0.85 ''Financial keywords detected'')"
    by code_simp
  from classify_locally_confidence_literal [OF a] a show ?thesis
    by (simp only: simp_thms)
qed

text \<open>
  C5, as the claim states it, fails in its second half: the meetings rule returns
  priority \<open>high\<close> for a keyword list that holds the sentinel \<^verbatim>\<open>has_time_reference\<close>
  and no urgency-tagged keyword.
\<close>

theorem meetings_high_without_urgency_tag:
  "classify_locally [''meeting:call'', ''has_time_reference''] ''alice@example.com''
       ''Call tomorrow'' =
     Some (result_dict ''meetings'' ''high'' 0.8 ''Meeting/calendar keywords detected'')
   \<and> \<not> list_ex urgency_tagged [''meeting:call'', ''has_time_reference'']"
  by code_simp

text \<open>
  C5, amended. For a keyword list with no urgency-tagged keyword: when the meetings rule
  answers, the priority is \<open>high\<close> if \<^verbatim>\<open>has_time_reference\<close> is in the list and
  \<open>medium\<close> otherwise; when the work rule answers, the priority is \<open>medium\<close>.
\<close>

theorem priority_without_urgency_tag:
  assumes "classify_locally keywords sender subject = Some r"
      and "\<not> list_ex urgency_tagged keywords"
  shows "(dict_get r ''category'' = Some (PStr ''meetings'') \<longrightarrow>
            dict_get r ''priority'' =
              Some (PStr (if ''has_time_reference'' \<in> set keywords
                          then ''high'' else ''medium'')))
       \<and> (dict_get r ''category'' = Some (PStr ''work'') \<longrightarrow>
            dict_get r ''priority'' = Some (PStr ''medium''))"
proof -
  note u = untagged_not_member [OF assms(2)]
  from classify_locally_cases [OF assms(1)] show ?thesis
    by (elim disjE; simp add: dict_get_result_dict u)
qed

theorem priority_without_urgency_tag_witness:
  "classify_locally [''work:project'', ''has_time_reference''] ''alice@example.com''
       ''Project plan'' =
     Some (result_dict ''work'' ''medium'' 0.75 ''Work/project keywords detected'')
   \<and> \<not> list_ex urgency_tagged [''work:project'', ''has_time_reference'']
   \<and> dict_get (result_dict ''work'' ''medium'' 0.75 ''Work/project keywords detected'')
         ''category'' = Some (PStr ''work'')
   \<and> dict_get (result_dict ''work'' ''medium'' 0.75 ''Work/project keywords detected'')
         ''priority'' = Some (PStr ''medium'')"
proof -
  have a: "classify_locally [''work:project'', ''has_time_reference''] ''alice@example.com''
       ''Project plan'' =
     Some (result_dict ''work'' ''medium'' 0.75 ''Work/project keywords detected'')"
    by code_simp
  have b: "\<not> list_ex urgency_tagged [''work:project'', ''has_time_reference'']"
    by code_simp
  have c: "dict_get (result_dict ''work'' ''medium'' 0.75 ''Work/project keywords detected'')
         ''category'' = Some (PStr ''work'')"
    by (simp add: dict_get_result_dict)
  from priority_without_urgency_tag [OF a b] a b c show ?thesis
    by (simp only: simp_thms)
qed

text \<open>
  With an urgency-tagged keyword such as \<^verbatim>\<open>urgency:asap\<close> in the list, neither rule
  raises the priority: rule 3 looks for the bare string \<^verbatim>\<open>'urgency:'\<close> among the
  keywords, and rule 5 for the same string among colon-free prefixes.
\<close>

lemma urgency_tag_does_not_raise_priority:
  "classify_locally [''meeting:call'', ''urgency:asap''] ''alice@example.com'' ''Call'' =
     Some (result_dict ''meetings'' ''medium'' 0.8 ''Meeting/calendar keywords detected'')"
  "classify_locally [''work:project'', ''urgency:asap''] ''alice@example.com'' ''Project'' =
     Some (result_dict ''work'' ''medium'' 0.75 ''Work/project keywords detected'')"
  by code_simp+

text \<open>
  Python leaves the order of \<^verbatim>\<open>list(set(found_keywords))\<close> open. The answer of the rule
  engine does not depend on it: two duplicate-free lists of the same keywords get the
  same result.
\<close>

lemma classify_locally_order_irrelevant:
  assumes s: "set keywords = set keywords'"
      and d: "distinct keywords" "distinct keywords'"
  shows "classify_locally keywords sender subject = classify_locally keywords' sender subject"
proof -
  have a: "(keywords = []) = (keywords' = [])"
    using s by (metis set_empty)
  have b: "set (keyword_strings keywords) = set (keyword_strings keywords')"
    using s by (simp add: keyword_strings_def)
  have c: "set (map f (filter P keywords)) = set (map f (filter P keywords'))" for f :: "string \<Rightarrow> string" and P
    using s by simp
  have e: "length (filter P keywords) = length (filter P keywords')" for P
  proof -
    have "length (filter P keywords) = card (set (filter P keywords))"
      using d(1) distinct_card [of "filter P keywords"] by (simp only: distinct_filter)
    also have "\<dots> = card (set (filter P keywords'))"
      using s by simp
    also have "\<dots> = length (filter P keywords')"
      using d(2) distinct_card [of "filter P keywords'"] by (simp only: distinct_filter)
    finally show ?thesis .
  qed
  show ?thesis
    unfolding classify_locally_def Let_def a b c e s ..
qed

section \<open>Properties of the orchestrator\<close>

text \<open>
  Every result of \<open>classify_locally\<close> passes the threshold test of \<open>classify_email\<close>: it
  is a non-empty dictionary whose confidence is at least 0.7.
\<close>

lemma classify_locally_confident:
  assumes "classify_locally keywords sender subject = Some l"
  shows "confident l = Inr True"
  using classify_locally_cases [OF assms]
  by (elim disjE; simp add: confident_def dict_get_result_dict) (simp_all add: result_dict_def)

lemma escalate_without_local:
  "fst (escalate env full_content keywords None) =
     [RemoteCall (redact_pii (Some full_content)) keywords]"
  by (simp add: escalate_def Let_def split: sum.splits)

text \<open>
  C1. If \<open>classify_locally\<close>, run on the keywords of the email, returns a result whose
  confidence is at least 0.7, then \<open>classify_email\<close> returns that result with
  \<open>method = local_rules\<close> and \<open>privacy_protected = True\<close> added, and the call has no event:
  the remote adapter is not invoked, so no text, raw or redacted, is passed to it.
\<close>

theorem local_fast_path:
  assumes "classify_locally
             (extract_keywords (email_get email_data ''subject'' @ '' ''
                                @ email_get email_data ''body''))
             (email_get email_data ''sender'') (email_get email_data ''subject'') = Some l"
      and "dict_get l ''confidence'' = Some (PFloat c)"
      and "0.7 \<le> c"
  shows "classify_email env email_data =
           ([], Inr (dict_set (dict_set l ''method'' (PStr ''local_rules''))
                       ''privacy_protected'' (PBool True)))"
proof -
  from assms(2) have "l \<noteq> []"
    by (auto simp: dict_get_def)
  with assms(2,3) have "confident l = Inr True"
    by (simp add: confident_def)
  with assms(1) show ?thesis
    by (simp add: classify_email_def Let_def)
qed

theorem local_fast_path_witness:
  "classify_email failing_service sample_email =
     ([], Inr [(''category'', PStr ''financial''), (''priority'', PStr ''high''),
               (''confidence'', PFloat 0.85),
               (''reasoning'', PStr ''Financial keywords detected''),
               (''method'', PStr ''local_rules''), (''privacy_protected'', PBool True)])"
proof -
  have a: "classify_locally
             (extract_keywords (email_get sample_email ''subject'' @ '' ''
                                @ email_get sample_email ''body''))
             (email_get sample_email ''sender'') (email_get sample_email ''subject'') =
           Some (result_dict ''financial'' ''high'' 0.85 ''Financial keywords detected'')"
    by code_simp
  have b: "dict_get (result_dict ''financial'' ''high'' 0.85 ''Financial keywords detected'')
             ''confidence'' = Some (PFloat 0.85)"
    by (simp add: dict_get_result_dict)
  have c: "(0.7::rat) \<le> 0.85"
    by simp
  from local_fast_path [OF a b c, of failing_service] show ?thesis
    by (simp add: result_dict_def)
qed

text \<open>
  C9. Every result of \<open>classify_locally\<close> passes the threshold test, so a call of
  \<open>classify_email\<close> never enters the merge step (no \<open>MergeCompare\<close> event, for every
  environment and every email), and whenever the call has an event at all, that is,
  whenever it escalates to the remote adapter, \<open>classify_locally\<close> had returned \<open>None\<close>.
\<close>

theorem merge_step_unreachable:
  "(classify_locally keywords sender subject = Some l \<longrightarrow> confident l = Inr True)
   \<and> MergeCompare \<notin> set (fst (classify_email env email_data))
   \<and> (fst (classify_email env email_data) \<noteq> [] \<longrightarrow>
        classify_locally
          (extract_keywords (email_get email_data ''subject'' @ '' ''
                             @ email_get email_data ''body''))
          (email_get email_data ''sender'') (email_get email_data ''subject'') = None)"
proof (intro conjI impI)
  assume "classify_locally keywords sender subject = Some l"
  then show "confident l = Inr True"
    by (rule classify_locally_confident)
next
  show "MergeCompare \<notin> set (fst (classify_email env email_data))"
    by (auto simp: classify_email_def Let_def escalate_without_local
          dest: classify_locally_confident split: option.splits)
next
  assume "fst (classify_email env email_data) \<noteq> []"
  then show "classify_locally
          (extract_keywords (email_get email_data ''subject'' @ '' ''
                             @ email_get email_data ''body''))
          (email_get email_data ''sender'') (email_get email_data ''subject'') = None"
    by (auto simp: classify_email_def Let_def
          dest: classify_locally_confident split: option.splits)
qed

theorem merge_step_unreachable_witness:
  "classify_locally [''personal:family''] ''mum@example.com'' ''Family dinner'' =
     Some (result_dict ''personal'' ''low'' 0.7 ''Personal keywords detected'')
   \<and> confident (result_dict ''personal'' ''low'' 0.7 ''Personal keywords detected'') = Inr True
   \<and> MergeCompare \<notin> set (fst (classify_email failing_service
                                  [''subject'' \<mapsto> ''Hello'', ''body'' \<mapsto> ''See you soon'']))
   \<and> fst (classify_email failing_service
             [''subject'' \<mapsto> ''Hello'', ''body'' \<mapsto> ''See you soon'']) =
       [RemoteCall ''Hello See you soon'' []]
   \<and> classify_locally
        (extract_keywords (email_get [''subject'' \<mapsto> ''Hello'', ''body'' \<mapsto> ''See you soon'']
                             ''subject'' @ '' ''
                           @ email_get [''subject'' \<mapsto> ''Hello'', ''body'' \<mapsto> ''See you soon'']
                               ''body''))
        (email_get [''subject'' \<mapsto> ''Hello'', ''body'' \<mapsto> ''See you soon''] ''sender'')
        (email_get [''subject'' \<mapsto> ''Hello'', ''body'' \<mapsto> ''See you soon''] ''subject'') = None"
proof -
  have a: "classify_locally [''personal:family''] ''mum@example.com'' ''Family dinner'' =
     Some (result_dict ''personal'' ''low'' 0.7 ''Personal keywords detected'')"
    by code_simp
  have b: "fst (classify_email failing_service
             [''subject'' \<mapsto> ''Hello'', ''body'' \<mapsto> ''See you soon'']) =
       [RemoteCall ''Hello See you soon'' []]"
    by code_simp
  then have c: "fst (classify_email failing_service
             [''subject'' \<mapsto> ''Hello'', ''body'' \<mapsto> ''See you soon'']) \<noteq> []"
    by simp
  from merge_step_unreachable [of "[''personal:family'']" "''mum@example.com''" "''Family dinner''"
         "result_dict ''personal'' ''low'' 0.7 ''Personal keywords detected''"
         failing_service "[''subject'' \<mapsto> ''Hello'', ''body'' \<mapsto> ''See you soon'']"]
    a b c show ?thesis
    by (simp only: simp_thms)
qed

text \<open>
  C3. The ten categories of the claim are the ones the endpoint \<^verbatim>\<open>/categories\<close> of
  \<^verbatim>\<open>classify.py\<close> and the prompt of the remote adapter list. For an email whose subject is
  \<^verbatim>\<open>urgent\<close>, with an empty body, \<open>classify_email\<close> returns on the local fast path, in
  every environment, a result whose category is \<^verbatim>\<open>urgent\<close>, which is none of the ten.
\<close>

theorem urgent_subject_category:
  "classify_email env
     [''subject'' \<mapsto> ''urgent'', ''body'' \<mapsto> [], ''sender'' \<mapsto> ''bob@example.com''] =
     ([], Inr [(''category'', PStr ''urgent''), (''priority'', PStr ''high''),
               (''confidence'', PFloat 0.8),
               (''reasoning'', PStr ''Urgent markers in subject''),
               (''method'', PStr ''local_rules''), (''privacy_protected'', PBool True)])"
  by code_simp

text \<open>
  The other ten categories a result of \<open>classify_locally\<close> can carry are among the
  listed ones; \<^verbatim>\<open>other\<close> is never returned locally.
\<close>

lemma classify_locally_categories:
  assumes "classify_locally keywords sender subject = Some l"
  shows "dict_get l ''category'' \<in>
           Some ` PStr ` {''spam'', ''financial'', ''meetings'', ''support'', ''work'',
                          ''personal'', ''notifications'', ''promotional'',
                          ''action_required'', ''urgent''}"
  using classify_locally_cases [OF assms]
  by (elim disjE; simp add: dict_get_result_dict)

section \<open>Properties of the keyword extractor\<close>

text \<open>
  C4. For the subject \<^verbatim>\<open>50% off - limited time offer, unsubscribe now\<close> (with the dash
  of the specification) and an empty body, \<open>extract_keywords\<close> returns no keyword at all:
  none of the marketing terms of the subject is in its lists. So \<open>classify_locally\<close>
  returns \<open>None\<close>, for every sender, and not the spam result.
\<close>

theorem limited_offer_not_classified_locally:
  "extract_keywords (limited_offer_subject @ '' '' @ []) = []
   \<and> classify_locally (extract_keywords (limited_offer_subject @ '' '' @ [])) sender
         limited_offer_subject = None"
proof -
  have "extract_keywords (limited_offer_subject @ '' '' @ []) = []"
    by code_simp
  then show ?thesis
    by (simp add: classify_locally_def)
qed

text \<open>
  The same holds of every text: the only spam indicator among the terms
  \<open>extract_keywords\<close> can return is \<^verbatim>\<open>urgent\<close>, and the spam rule asks for two.
\<close>

lemma vocabulary_generic:
  "set (remdups (concat (map (\<lambda>(c, kws). map (f c) (filter P kws)) xs)
                 @ map g (filter Q ys) @ (if b1 then [q] else []) @ (if b2 then [t] else [])))
   \<subseteq> set (concat (map (\<lambda>(c, kws). map (f c) kws) xs) @ map g ys @ [q, t])"
  by auto

lemma extract_keywords_vocabulary: "set (extract_keywords text) \<subseteq> set keyword_vocabulary"
proof (cases "text = []")
  case True
  then show ?thesis
    by (simp add: extract_keywords_def)
next
  case False
  then show ?thesis
    unfolding extract_keywords_def keyword_vocabulary_def Let_def
    by (simp only: if_False) (rule vocabulary_generic)
qed

lemma vocabulary_spam_terms:
  "list_all (\<lambda>kw. (if CHR '':'' \<in> set kw then last (py_split kw '':'') else kw)
                    \<in> spam_indicators
                 \<longrightarrow> kw = ''urgency:urgent'')
     keyword_vocabulary"
  by code_simp

lemma spam_rule_never_fires_after_extraction:
  "card (set (keyword_strings (extract_keywords text)) \<inter> spam_indicators) \<le> 1"
proof -
  have "set (keyword_strings (extract_keywords text)) \<inter> spam_indicators \<subseteq> {''urgent''}"
  proof
    fix x
    assume "x \<in> set (keyword_strings (extract_keywords text)) \<inter> spam_indicators"
    then obtain kw where kw: "kw \<in> set (extract_keywords text)"
      and x: "x = (if CHR '':'' \<in> set kw then last (py_split kw '':'') else kw)"
      and s: "x \<in> spam_indicators"
      by (auto simp: keyword_strings_def)
    from kw extract_keywords_vocabulary have "kw \<in> set keyword_vocabulary"
      by blast
    with vocabulary_spam_terms x s have "kw = ''urgency:urgent''"
      by (simp add: list_all_iff)
    with x have "x = ''urgent''"
      by (simp add: py_split_def)
    then show "x \<in> {''urgent''}"
      by simp
  qed
  then have "card (set (keyword_strings (extract_keywords text)) \<inter> spam_indicators)
               \<le> card {''urgent''}"
    by (intro card_mono) simp_all
  then show ?thesis
    by simp
qed

section \<open>Properties of the remote inference adapter\<close>

text \<open>
  \<open>classify_with_openai\<close> is a total function into Python values: whatever the service
  and \<^verbatim>\<open>json.loads\<close> do, one of the two handlers turns an exception into a fallback
  dictionary. The three lemmas below are the cases the claim C2 gets right.
\<close>

lemma service_failure_fallback:
  assumes "create env (take 1000 redacted_content) (py_join '', '' (take 10 keywords)) =
             ServiceRaises e"
  shows "classify_with_openai env redacted_content keywords =
           PDict (result_dict ''other'' ''medium'' 0.2
                    (''OpenAI classification failed: '' @ exc_message e))"
  using assms by (simp add: classify_with_openai_def service_fallback_def)

lemma unparseable_reply_fallback:
  assumes "create env (take 1000 redacted_content) (py_join '', '' (take 10 keywords)) =
             ServiceResponse (Some content # others)"
      and "strip_code_fence (py_strip content) = Inr json_text"
      and "json_loads env json_text = Inl (JSONDecodeError m)"
  shows "classify_with_openai env redacted_content keywords =
           PDict (result_dict ''other'' ''medium'' 0.3
                    (''OpenAI response parsing failed: '' @ m))"
  using assms
  by (simp add: classify_with_openai_def first_content_def py_index_def parse_response_def
        parse_fallback_def)

lemma all_fields_in_dict:
  "all_fields_in fs (PDict d) = Inr (list_all (\<lambda>f. map_of d f \<noteq> None) fs)"
  by (induction fs) (auto split: bool.splits)

lemma missing_field_fallback:
  assumes "create env (take 1000 redacted_content) (py_join '', '' (take 10 keywords)) =
             ServiceResponse (Some content # others)"
      and "strip_code_fence (py_strip content) = Inr json_text"
      and "json_loads env json_text = Inr (PDict d)"
      and "\<not> list_all (\<lambda>f. map_of d f \<noteq> None) required_fields"
  shows "classify_with_openai env redacted_content keywords =
           PDict (result_dict ''other'' ''medium'' 0.3
                    (''OpenAI response parsing failed: ''
                     @ ''Missing required fields in OpenAI response''))"
  using assms
  by (simp add: classify_with_openai_def first_content_def py_index_def parse_response_def
        parse_fallback_def all_fields_in_dict)

text \<open>The removal of the code fence never fails: the indices it reads are there.\<close>

lemma split_from_two_pieces:
  "sep \<noteq> [] \<Longrightarrow> py_in sep s \<Longrightarrow> 2 \<le> length (split_from sep s)"
proof (induction sep s rule: split_from.induct)
  case (1 sep)
  then show ?case by simp
next
  case (2 sep c cs)
  show ?case
  proof (cases "starts_with (c # cs) sep")
    case True
    then show ?thesis
      using split_from_nonempty [of sep "drop (length sep - 1) cs"]
      by (cases "split_from sep (drop (length sep - 1) cs)") simp_all
  next
    case False
    with 2 show ?thesis
      by (auto split: list.splits)
  qed
qed

lemma strip_code_fence_returns: "\<exists>json_text. strip_code_fence response_text = Inr json_text"
  using split_from_two_pieces [of "''```json''" response_text]
    split_from_two_pieces [of "''```''" response_text]
    split_from_nonempty
  by (auto simp: strip_code_fence_def py_index_def py_split_def)

text \<open>
  C2. When the service replies with the text \<^verbatim>\<open>42\<close>, the reply parses, as the integer
  42, and none of the four fields is in it. The test \<^verbatim>\<open>field in result\<close> then raises
  \<^verbatim>\<open>TypeError\<close>, which the inner handler does not catch: the adapter returns the fallback
  of a failed service call, with confidence 0.2 and the text
  \<^verbatim>\<open>OpenAI classification failed: ...\<close>, and not the fallback of a parse failure.
\<close>

theorem scalar_reply_reported_as_service_failure:
  "classify_with_openai scalar_reply_service redacted_content keywords =
     PDict (result_dict ''other'' ''medium'' 0.2
              (''OpenAI classification failed: argument of type '' @ quoted ''int''
               @ '' is not iterable''))"
  by (simp add: classify_with_openai_def scalar_reply_service_def first_content_def
        py_index_def py_strip_def is_space_def parse_response_def strip_code_fence_def
        required_fields_def service_fallback_def)

section \<open>Properties of the PII redactor\<close>











end
